theory Spec2Isabelle
  imports Complex_Main "HOL-Library.Sublist" "HOL-Library.AList"
begin

section \<open>Values and exceptions of the script\<close>

text \<open>
  \<^verbatim>\<open>scripts/collect_results.py\<close> works on what \<^verbatim>\<open>json.load\<close> and
  \<^verbatim>\<open>resp.json()\<close> return: \<^verbatim>\<open>None\<close>, booleans, integers, floats, strings, lists
  and dicts. A dict is an association list in insertion order; \<^verbatim>\<open>json\<close> builds dicts
  with distinct keys. The floats of a JSON value are only compared with zero and passed on,
  never computed with, so their carrier is \<open>real\<close>. Strings are byte strings (UTF-8), which agrees with Python's
  code points on every ASCII delimiter and prefix the script looks for.
\<close>

datatype json =
    JNull
  | JBool bool
  | JInt int
  | JFloat real
  | JStr string
  | JList "json list"
  | JDict "(string \<times> json) list"

text \<open>The exceptions the script and the libraries it calls can raise.\<close>

datatype py_error =
    SystemExit int
  | AttributeError
  | TypeError
  | KeyError
  | ValueError
  | BadZipFile
  | JSONDecodeError
  | UnicodeDecodeError
  | HTTPError
  | RequestException
  | OtherError string

text \<open>\<^verbatim>\<open>d.get(k, default)\<close> on a dict.\<close>

definition dict_get :: "(string \<times> json) list \<Rightarrow> string \<Rightarrow> json \<Rightarrow> json" where
  "dict_get kvs k d = (case map_of kvs k of None \<Rightarrow> d | Some v \<Rightarrow> v)"

text \<open>\<^verbatim>\<open>x.get(k, default)\<close> on any value: only a dict has the method.\<close>

fun py_get :: "json \<Rightarrow> string \<Rightarrow> json \<Rightarrow> py_error + json" where
  "py_get (JDict kvs) k d = Inr (dict_get kvs k d)"
| "py_get _ k d = Inl AttributeError"

text \<open>\<^verbatim>\<open>x[k]\<close> with a string key.\<close>

fun py_subscript :: "json \<Rightarrow> string \<Rightarrow> py_error + json" where
  "py_subscript (JDict kvs) k = (case map_of kvs k of None \<Rightarrow> Inl KeyError | Some v \<Rightarrow> Inr v)"
| "py_subscript _ k = Inl TypeError"

text \<open>
  \<^verbatim>\<open>for m in x\<close> and \<^verbatim>\<open>results.extend(x)\<close>: a list gives its elements, a dict its
  keys, a string its characters; anything else is not iterable.
\<close>

fun py_iter :: "json \<Rightarrow> py_error + json list" where
  "py_iter (JList xs) = Inr xs"
| "py_iter (JDict kvs) = Inr (map (\<lambda>kv. JStr (fst kv)) kvs)"
| "py_iter (JStr s) = Inr (map (\<lambda>c. JStr [c]) s)"
| "py_iter _ = Inl TypeError"

text \<open>Truth value of a value, as \<^verbatim>\<open>if not x\<close> tests it.\<close>

fun truthy :: "json \<Rightarrow> bool" where
  "truthy JNull = False"
| "truthy (JBool b) = b"
| "truthy (JInt i) = (i \<noteq> 0)"
| "truthy (JFloat f) = (f \<noteq> 0)"
| "truthy (JStr s) = (s \<noteq> [])"
| "truthy (JList xs) = (xs \<noteq> [])"
| "truthy (JDict kvs) = (kvs \<noteq> [])"

section \<open>Strings\<close>

text \<open>\<^verbatim>\<open>s.split(c)\<close> with a one-character separator: never empty, \<^verbatim>\<open>"".split("-") == [""]\<close>.\<close>

fun split_on :: "char \<Rightarrow> string \<Rightarrow> string list" where
  "split_on c [] = [[]]"
| "split_on c (x # xs) =
     (if x = c then [] # split_on c xs
      else (case split_on c xs of
              [] \<Rightarrow> [[x]]
            | t # ts \<Rightarrow> (x # t) # ts))"

text \<open>\<^verbatim>\<open>c.join(parts)\<close>, used to say what \<open>split_on\<close> computes.\<close>

fun join_with :: "char \<Rightarrow> string list \<Rightarrow> string" where
  "join_with c [] = []"
| "join_with c [t] = t"
| "join_with c (t # u # ts) = t @ c # join_with c (u # ts)"

text \<open>
  \<^verbatim>\<open>s.lower()\<close> follows the Unicode tables of the interpreter, which are not part of
  the repository: the function is a parameter of the model.
\<close>

type_synonym str_lower = "string \<Rightarrow> string"

section \<open>Runtime-version inference\<close>

text \<open>
  \<^verbatim>\<open>
  def infer_python_version(artifact_name: str) -> str:
      for part in artifact_name.split("-"):
          if part.startswith("py"):
              return part[2:]
      return ""
  \<close>
\<close>

fun first_py_part :: "string list \<Rightarrow> string" where
  "first_py_part [] = ''''"
| "first_py_part (part # parts) =
     (if prefix ''py'' part then drop 2 part else first_py_part parts)"

definition infer_python_version :: "string \<Rightarrow> string" where
  "infer_python_version artifact_name = first_py_part (split_on CHR ''-'' artifact_name)"

section \<open>Configuration inference\<close>

text \<open>
  \<^verbatim>\<open>
  WORKFLOW_CONFIG_MAP = {"tests.yml": "C1", "code-style.yml": "C1", "coverage.yml": "C1",
                         "ci-consolidated.yml": "C3"}
  BRANCH_CONFIG_MAP = {"experiment/c1-baseline": "C1", "experiment/c2-pip-cache": "C2",
                       "experiment/c3-consolidation": "C3", "experiment/c4-combined": "C4"}
  \<close>
  \<^verbatim>\<open>BRANCH_CONFIG_MAP.items()\<close> goes through the entries in the order they are written.
\<close>

definition WORKFLOW_CONFIG_MAP :: "(string \<times> string) list" where
  "WORKFLOW_CONFIG_MAP =
     [(''tests.yml'', ''C1''),
      (''code-style.yml'', ''C1''),
      (''coverage.yml'', ''C1''),
      (''ci-consolidated.yml'', ''C3'')]"

definition BRANCH_CONFIG_MAP :: "(string \<times> string) list" where
  "BRANCH_CONFIG_MAP =
     [(''experiment/c1-baseline'', ''C1''),
      (''experiment/c2-pip-cache'', ''C2''),
      (''experiment/c3-consolidation'', ''C3''),
      (''experiment/c4-combined'', ''C4'')]"

text \<open>
  \<^verbatim>\<open>
  for prefix, label in BRANCH_CONFIG_MAP.items():
      if branch == prefix or branch.startswith(prefix):
          return label
  \<close>
  A branch that is not a string is equal to no key, and has no \<^verbatim>\<open>startswith\<close>.
\<close>

fun branch_label :: "json \<Rightarrow> (string \<times> string) list \<Rightarrow> py_error + string option" where
  "branch_label branch [] = Inr None"
| "branch_label branch ((pfx, label) # rest) =
     (case branch of
        JStr b \<Rightarrow> if b = pfx \<or> prefix pfx b then Inr (Some label) else branch_label branch rest
      | _ \<Rightarrow> Inl AttributeError)"

text \<open>
  \<^verbatim>\<open>
  def infer_config(run: dict) -> str:
      branch = run.get("head_branch", "")
      for prefix, label in BRANCH_CONFIG_MAP.items(): ...
      workflow_file = run.get("path", "").split("/")[-1]
      return WORKFLOW_CONFIG_MAP.get(workflow_file, "unknown")
  \<close>
\<close>

definition workflow_label :: "string \<Rightarrow> string" where
  "workflow_label workflow_file =
     (case map_of WORKFLOW_CONFIG_MAP workflow_file of None \<Rightarrow> ''unknown'' | Some l \<Rightarrow> l)"

definition infer_config :: "json \<Rightarrow> py_error + string" where
  "infer_config run =
     (case py_get run ''head_branch'' (JStr []) of
        Inl e \<Rightarrow> Inl e
      | Inr branch \<Rightarrow>
          (case branch_label branch BRANCH_CONFIG_MAP of
             Inl e \<Rightarrow> Inl e
           | Inr (Some label) \<Rightarrow> Inr label
           | Inr None \<Rightarrow>
               (case py_get run ''path'' (JStr []) of
                  Inl e \<Rightarrow> Inl e
                | Inr (JStr path) \<Rightarrow> Inr (workflow_label (last (split_on CHR ''/'' path)))
                | Inr _ \<Rightarrow> Inl AttributeError)))"

section \<open>Measurement extraction\<close>

text \<open>
  One extracted record, the dict that \<^verbatim>\<open>parse_eco_ci_json\<close> appends to \<^verbatim>\<open>rows\<close>.
\<close>

record measurement =
  stage :: json
  energy_joules :: json
  duration_seconds :: json
  timestamp :: json

text \<open>
  \<^verbatim>\<open>
  {"stage": m.get("label", "unknown"),
   "energy_joules": m.get("total_energy_J", m.get("cpu_energy_J", 0.0)),
   "duration_seconds": m.get("duration", 0.0),
   "timestamp": m.get("time", "")}
  \<close>
  Every field calls \<^verbatim>\<open>m.get\<close>, which only a dict has.
\<close>

fun measurement_row :: "json \<Rightarrow> py_error + measurement" where
  "measurement_row (JDict m) =
     Inr \<lparr>stage = dict_get m ''label'' (JStr ''unknown''),
          energy_joules = dict_get m ''total_energy_J'' (dict_get m ''cpu_energy_J'' (JFloat 0)),
          duration_seconds = dict_get m ''duration'' (JFloat 0),
          timestamp = dict_get m ''time'' (JStr [])\<rparr>"
| "measurement_row _ = Inl AttributeError"

text \<open>
  \<^verbatim>\<open>for m in measurements: rows.append({...})\<close>: the rows so far, and the exception that
  stopped the loop, if any.
\<close>

fun append_measurements ::
  "json list \<Rightarrow> measurement list \<Rightarrow> measurement list \<times> py_error option" where
  "append_measurements [] rows = (rows, None)"
| "append_measurements (m # ms) rows =
     (case measurement_row m of
        Inl e \<Rightarrow> (rows, Some e)
      | Inr row \<Rightarrow> append_measurements ms (rows @ [row]))"

text \<open>
  What \<^verbatim>\<open>zipfile.ZipFile(BytesIO(raw_bytes))\<close> gives when it does not raise: the member
  names of \<^verbatim>\<open>zf.namelist()\<close>, and for a member name the outcome of
  \<^verbatim>\<open>with zf.open(fname) as f: data = json.load(f)\<close>, a value or the exception raised.
  The two libraries are not part of the repository: the function from the bytes to this view
  is a parameter of the model.
\<close>

record zip_archive =
  namelist :: "string list"
  json_load :: "string \<Rightarrow> py_error + json"

type_synonym bytes = string

type_synonym zip_reader = "bytes \<Rightarrow> py_error + zip_archive"

text \<open>
  \<^verbatim>\<open>
  for fname in json_files:
      with zf.open(fname) as f:
          data = json.load(f)
          if isinstance(data, list):
              measurements = data
          elif isinstance(data, dict):
              measurements = data.get("measurements", [data])
          else:
              continue
          for m in measurements: ...
  \<close>
\<close>

fun json_files_loop ::
  "zip_archive \<Rightarrow> string list \<Rightarrow> measurement list \<Rightarrow> measurement list \<times> py_error option" where
  "json_files_loop zf [] rows = (rows, None)"
| "json_files_loop zf (fname # rest) rows =
     (case json_load zf fname of
        Inl e \<Rightarrow> (rows, Some e)
      | Inr (JList ms) \<Rightarrow>
          (case append_measurements ms rows of
             (rows', Some e) \<Rightarrow> (rows', Some e)
           | (rows', None) \<Rightarrow> json_files_loop zf rest rows')
      | Inr (JDict d) \<Rightarrow>
          (case py_iter (dict_get d ''measurements'' (JList [JDict d])) of
             Inl e \<Rightarrow> (rows, Some e)
           | Inr ms \<Rightarrow>
               (case append_measurements ms rows of
                  (rows', Some e) \<Rightarrow> (rows', Some e)
                | (rows', None) \<Rightarrow> json_files_loop zf rest rows'))
      | Inr _ \<Rightarrow> json_files_loop zf rest rows)"

text \<open>The lines the script prints, kept as data; the names in them are values of the run.\<close>

datatype message =
    Msg_repository "string option"
  | Msg_output string
  | Msg_found nat
  | Msg_run json json string json
  | Msg_no_eco_artifacts json
  | Msg_downloading json
  | Msg_rate_limited int
  | Msg_no_data
  | Msg_wrote nat string
  | Warning_download json int
  | Warning_no_json json
  | Warning_bad_zip json
  | Warning_json_error json
  | Error_no_token
  | Error_no_repo

text \<open>
  The end of the \<^verbatim>\<open>try\<close> statement: \<^verbatim>\<open>zipfile.BadZipFile\<close> and
  \<^verbatim>\<open>json.JSONDecodeError\<close> are caught, a warning is printed and control reaches
  \<^verbatim>\<open>return rows\<close>; every other exception leaves the function.
\<close>

fun parse_handlers ::
  "json \<Rightarrow> measurement list \<times> py_error option \<Rightarrow> (py_error + measurement list) \<times> message list" where
  "parse_handlers artifact_name (rows, None) = (Inr rows, [])"
| "parse_handlers artifact_name (rows, Some BadZipFile) =
     (Inr rows, [Warning_bad_zip artifact_name])"
| "parse_handlers artifact_name (rows, Some JSONDecodeError) =
     (Inr rows, [Warning_json_error artifact_name])"
| "parse_handlers artifact_name (rows, Some e) = (Inl e, [])"

definition json_files_of :: "zip_archive \<Rightarrow> string list" where
  "json_files_of zf = filter (suffix ''.json'') (namelist zf)"

text \<open>
  \<^verbatim>\<open>
  def parse_eco_ci_json(raw_bytes: bytes, artifact_name: str) -> list[dict]:
      rows = []
      try:
          with zipfile.ZipFile(BytesIO(raw_bytes)) as zf:
              json_files = [n for n in zf.namelist() if n.endswith(".json")]
              if not json_files:
                  print(f"  WARNING: No JSON files found in artifact '{artifact_name}'")
                  return rows
              for fname in json_files: ...
      except zipfile.BadZipFile: print(...)
      except json.JSONDecodeError as e: print(...)
      return rows
  \<close>
  The result is the returned rows or the exception that left the function, with the lines
  printed.
\<close>

definition parse_eco_ci_json ::
  "zip_reader \<Rightarrow> bytes \<Rightarrow> json \<Rightarrow> (py_error + measurement list) \<times> message list" where
  "parse_eco_ci_json ZipFile raw_bytes artifact_name =
     (case ZipFile raw_bytes of
        Inl e \<Rightarrow> parse_handlers artifact_name ([], Some e)
      | Inr zf \<Rightarrow>
          if json_files_of zf = [] then (Inr [], [Warning_no_json artifact_name])
          else parse_handlers artifact_name (json_files_loop zf (json_files_of zf) []))"

section \<open>The environment: credentials, the remote service, the clock, output\<close>

text \<open>
  \<^verbatim>\<open>GITHUB_TOKEN = os.environ.get("GITHUB_TOKEN")\<close> and
  \<^verbatim>\<open>GITHUB_REPO = os.environ.get("GITHUB_REPO")\<close>: \<open>None\<close> when the variable is absent.
\<close>

record env =
  GITHUB_TOKEN :: "string option"
  GITHUB_REPO :: "string option"

text \<open>\<^verbatim>\<open>not GITHUB_TOKEN\<close> holds for an absent and for an empty variable.\<close>

fun is_set :: "string option \<Rightarrow> bool" where
  "is_set None = False"
| "is_set (Some s) = (s \<noteq> [])"

text \<open>\<^verbatim>\<open>f"{GITHUB_REPO}"\<close> inside the URLs.\<close>

fun format_opt :: "string option \<Rightarrow> string" where
  "format_opt None = ''None''"
| "format_opt (Some s) = s"

text \<open>
  The three URLs the script builds: the runs of the repository, the artifacts of a run (the
  run id is a value of the run record), and the download reference of an artifact.
\<close>

datatype url =
    Runs_url string
  | Artifacts_url string json
  | Download_url json

record request =
  req_url :: url
  req_headers :: "(string \<times> string) list"
  req_params :: "(string \<times> json) list option"
  req_timeout :: int

text \<open>
  What the script reads of a response: the status code, the header
  \<^verbatim>\<open>X-RateLimit-Reset\<close> as \<^verbatim>\<open>int(...)\<close> reads it (absent, not a number, or a number),
  the outcome of \<^verbatim>\<open>resp.json()\<close>, and \<^verbatim>\<open>resp.content\<close>.
\<close>

record response =
  status_code :: int
  ratelimit_reset :: "(py_error + int) option"
  json_body :: "py_error + json"
  content :: bytes

text \<open>\<^verbatim>\<open>requests.get\<close> raises (no connection, timeout) or returns a response.\<close>

datatype http_outcome =
    Request_failed py_error
  | Response response

datatype event =
    Stdout message
  | Stderr message
  | Http_get request
  | Sleep int

text \<open>
  The world of one execution. \<open>script\<close> holds the outcomes of the calls of
  \<^verbatim>\<open>requests.get\<close> still to come, in order: a call takes the first one, and an execution
  that needs more than the script holds has no result in the model (\<open>None\<close>).
  \<open>clock\<close> gives the successive readings of \<^verbatim>\<open>time.time()\<close>, \<open>ticks\<close> counts them.
  A reading is a float, and the script uses two integers that it derives from it with float
  arithmetic: \<^verbatim>\<open>int(t)\<close> and \<^verbatim>\<open>int(t + 60)\<close>. The reading carries both.
  \<open>trace\<close> records what the script printed, requested and slept; \<open>files\<close> holds the
  tables written, by path: the header and the cells of each row.
\<close>

record reading =
  as_int :: int
  plus_60_as_int :: int

record world =
  script :: "http_outcome list"
  clock :: "nat \<Rightarrow> reading"
  ticks :: nat
  trace :: "event list"
  files :: "string \<Rightarrow> (string list \<times> json list list) option"

definition emit :: "event \<Rightarrow> world \<Rightarrow> world" where
  "emit e w = w\<lparr>trace := trace w @ [e]\<rparr>"

definition time_time :: "world \<Rightarrow> reading \<times> world" where
  "time_time w = (clock w (ticks w), w\<lparr>ticks := Suc (ticks w)\<rparr>)"

section \<open>GitHub API helpers\<close>

text \<open>
  \<^verbatim>\<open>
  def get_headers() -> dict:
      if not GITHUB_TOKEN:
          print("ERROR: GITHUB_TOKEN environment variable not set.", file=sys.stderr)
          sys.exit(1)
      if not GITHUB_REPO:
          print("ERROR: GITHUB_REPO environment variable not set.", file=sys.stderr)
          sys.exit(1)
      return {"Authorization": f"Bearer {GITHUB_TOKEN}", ...}
  \<close>
\<close>

definition auth_headers :: "env \<Rightarrow> (string \<times> string) list" where
  "auth_headers e =
     [(''Authorization'', ''Bearer '' @ format_opt (GITHUB_TOKEN e)),
      (''Accept'', ''application/vnd.github+json''),
      (''X-GitHub-Api-Version'', ''2022-11-28'')]"

definition get_headers :: "env \<Rightarrow> world \<Rightarrow> (py_error + (string \<times> string) list) \<times> world" where
  "get_headers e w =
     (if \<not> is_set (GITHUB_TOKEN e) then (Inl (SystemExit 1), emit (Stderr Error_no_token) w)
      else if \<not> is_set (GITHUB_REPO e) then (Inl (SystemExit 1), emit (Stderr Error_no_repo) w)
      else (Inr (auth_headers e), w))"

text \<open>
  \<^verbatim>\<open>
  def api_get(url, params=None):
      headers = get_headers()
      resp = requests.get(url, headers=headers, params=params, timeout=30)
      if resp.status_code == 429 or resp.status_code == 403:
          reset = int(resp.headers.get("X-RateLimit-Reset", time.time() + 60))
          wait = max(reset - int(time.time()), 10)
          print(f"Rate-limited. Waiting {wait}s ...")
          time.sleep(wait)
          return api_get(url, params)
      resp.raise_for_status()
      return resp.json()
  \<close>
  The default \<^verbatim>\<open>time.time() + 60\<close> is computed whether or not the header is there.
  \<^verbatim>\<open>raise_for_status\<close> raises for the codes from 400 to 599. Each call takes one outcome
  from the script, so the retries end with the script.
\<close>

function api_get ::
  "env \<Rightarrow> url \<Rightarrow> (string \<times> json) list option \<Rightarrow> world \<Rightarrow> ((py_error + json) \<times> world) option" where
  "api_get e u params w =
     (case get_headers e w of
        (Inl err, w1) \<Rightarrow> Some (Inl err, w1)
      | (Inr headers, w1) \<Rightarrow>
          (case script w1 of
             [] \<Rightarrow> None
           | outcome # rest \<Rightarrow>
               (let w2 = emit (Http_get \<lparr>req_url = u, req_headers = headers,
                                          req_params = params, req_timeout = 30\<rparr>)
                           (w1\<lparr>script := rest\<rparr>)
                in case outcome of
                     Request_failed err \<Rightarrow> Some (Inl err, w2)
                   | Response resp \<Rightarrow>
                       if status_code resp = 429 \<or> status_code resp = 403 then
                         (case time_time w2 of (t1, w3) \<Rightarrow>
                            (case (case ratelimit_reset resp of
                                     None \<Rightarrow> Inr (plus_60_as_int t1)
                                   | Some r \<Rightarrow> r) of
                               Inl err \<Rightarrow> Some (Inl err, w3)
                             | Inr reset \<Rightarrow>
                                 (case time_time w3 of (t2, w4) \<Rightarrow>
                                    (let wait = max (reset - as_int t2) 10
                                     in api_get e u params
                                          (emit (Sleep wait)
                                             (emit (Stdout (Msg_rate_limited wait)) w4))))))
                       else if 400 \<le> status_code resp \<and> status_code resp < 600 then
                         Some (Inl HTTPError, w2)
                       else
                         (case json_body resp of
                            Inl err \<Rightarrow> Some (Inl err, w2)
                          | Inr data \<Rightarrow> Some (Inr data, w2)))))"
  by pat_completeness auto
termination
  by (relation "measure (\<lambda>(e, u, params, w). length (script w))")
     (auto simp: get_headers_def emit_def time_time_def split: if_splits)

text \<open>\<^verbatim>\<open>params["page"] = page\<close>: the value of an existing key is replaced in place, a new
  key is added at the end.\<close>

definition dict_set :: "string \<Rightarrow> json \<Rightarrow> (string \<times> json) list \<Rightarrow> (string \<times> json) list" where
  "dict_set k v d = AList.update k v d"

declare api_get.simps [simp del]

lemma api_get_script_shorter:
  "api_get e u params w = Some (Inr data, w') \<Longrightarrow> length (script w') < length (script w)"
proof (induction "length (script w)" arbitrary: w rule: less_induct)
  case less
  from less.prems show ?case
    by (subst (asm) api_get.simps)
       (auto simp: get_headers_def Let_def emit_def time_time_def
             split: if_splits list.splits http_outcome.splits sum.splits prod.splits
                    option.splits
             dest!: less.hyps [rotated])
qed

text \<open>
  \<^verbatim>\<open>
  def paginate(url, key, params=None):
      params = params or {}
      params["per_page"] = 100
      results = []
      page = 1
      while True:
          params["page"] = page
          data = api_get(url, params)
          items = data.get(key, [])
          results.extend(items)
          if len(items) < 100:
              break
          page += 1
      return results
  \<close>
  \<open>paginate_loop\<close> is the \<^verbatim>\<open>while\<close> loop; every round takes at least one outcome from the
  script, which is its measure.
\<close>

function paginate_loop ::
  "env \<Rightarrow> url \<Rightarrow> string \<Rightarrow> (string \<times> json) list \<Rightarrow> int \<Rightarrow> json list \<Rightarrow> world \<Rightarrow>
   ((py_error + json list) \<times> world) option" where
  "paginate_loop e u key params page results w =
     (case api_get e u (Some (dict_set ''page'' (JInt page) params)) w of
        None \<Rightarrow> None
      | Some (Inl err, w') \<Rightarrow> Some (Inl err, w')
      | Some (Inr data, w') \<Rightarrow>
          (case py_get data key (JList []) of
             Inl err \<Rightarrow> Some (Inl err, w')
           | Inr items \<Rightarrow>
               (case py_iter items of
                  Inl err \<Rightarrow> Some (Inl err, w')
                | Inr xs \<Rightarrow>
                    if length xs < 100 then Some (Inr (results @ xs), w')
                    else paginate_loop e u key (dict_set ''page'' (JInt page) params)
                           (page + 1) (results @ xs) w')))"
  by pat_completeness auto
termination
  by (relation "measure (\<lambda>(e, u, key, params, page, results, w). length (script w))")
     (auto dest: api_get_script_shorter)

declare paginate_loop.simps [simp del]

definition paginate ::
  "env \<Rightarrow> url \<Rightarrow> string \<Rightarrow> (string \<times> json) list option \<Rightarrow> world \<Rightarrow>
   ((py_error + json list) \<times> world) option" where
  "paginate e u key params w =
     paginate_loop e u key
       (dict_set ''per_page'' (JInt 100) (case params of None \<Rightarrow> [] | Some d \<Rightarrow> d)) 1 [] w"

section \<open>Core logic\<close>

text \<open>
  \<^verbatim>\<open>
  def list_workflow_runs():
      url = f"https://api.github.com/repos/{GITHUB_REPO}/actions/runs"
      runs = paginate(url, "workflow_runs", {"status": "completed"})
      print(f"Found {len(runs)} completed workflow runs.")
      return runs
  \<close>
\<close>

definition list_workflow_runs :: "env \<Rightarrow> world \<Rightarrow> ((py_error + json list) \<times> world) option" where
  "list_workflow_runs e w =
     (case paginate e (Runs_url (format_opt (GITHUB_REPO e))) ''workflow_runs''
             (Some [(''status'', JStr ''completed'')]) w of
        None \<Rightarrow> None
      | Some (Inl err, w') \<Rightarrow> Some (Inl err, w')
      | Some (Inr runs, w') \<Rightarrow> Some (Inr runs, emit (Stdout (Msg_found (length runs))) w'))"

text \<open>
  \<^verbatim>\<open>
  def list_artifacts(run_id):
      url = f"https://api.github.com/repos/{GITHUB_REPO}/actions/runs/{run_id}/artifacts"
      data = api_get(url)
      return data.get("artifacts", [])
  \<close>
\<close>

definition list_artifacts :: "env \<Rightarrow> json \<Rightarrow> world \<Rightarrow> ((py_error + json) \<times> world) option" where
  "list_artifacts e run_id w =
     (case api_get e (Artifacts_url (format_opt (GITHUB_REPO e)) run_id) None w of
        None \<Rightarrow> None
      | Some (Inl err, w') \<Rightarrow> Some (Inl err, w')
      | Some (Inr data, w') \<Rightarrow> Some (py_get data ''artifacts'' (JList []), w'))"

text \<open>
  \<^verbatim>\<open>
  def download_artifact(artifact):
      download_url = artifact.get("archive_download_url")
      if not download_url:
          return None
      headers = get_headers()
      resp = requests.get(download_url, headers=headers, timeout=60, allow_redirects=True)
      if resp.status_code == 200:
          return resp.content
      print(f"  WARNING: Could not download artifact {artifact['name']} - HTTP {resp.status_code}")
      return None
  \<close>
\<close>

definition download_artifact ::
  "env \<Rightarrow> json \<Rightarrow> world \<Rightarrow> ((py_error + bytes option) \<times> world) option" where
  "download_artifact e artifact w =
     (case py_get artifact ''archive_download_url'' JNull of
        Inl err \<Rightarrow> Some (Inl err, w)
      | Inr download_url \<Rightarrow>
          if \<not> truthy download_url then Some (Inr None, w)
          else
            (case get_headers e w of
               (Inl err, w1) \<Rightarrow> Some (Inl err, w1)
             | (Inr headers, w1) \<Rightarrow>
                 (case script w1 of
                    [] \<Rightarrow> None
                  | outcome # rest \<Rightarrow>
                      (let w2 = emit (Http_get \<lparr>req_url = Download_url download_url,
                                                 req_headers = headers, req_params = None,
                                                 req_timeout = 60\<rparr>)
                                  (w1\<lparr>script := rest\<rparr>)
                       in case outcome of
                            Request_failed err \<Rightarrow> Some (Inl err, w2)
                          | Response resp \<Rightarrow>
                              if status_code resp = 200 then Some (Inr (Some (content resp)), w2)
                              else
                                (case py_subscript artifact ''name'' of
                                   Inl err \<Rightarrow> Some (Inl err, w2)
                                 | Inr name \<Rightarrow>
                                     Some (Inr None,
                                           emit (Stdout (Warning_download name (status_code resp)))
                                             w2))))))"

section \<open>Main\<close>

text \<open>
  \<^verbatim>\<open>eco_artifacts = [a for a in artifacts if "eco-ci" in a["name"].lower()]\<close>: the first
  artifact without a name, or whose name is not a string, raises.
\<close>

fun eco_artifacts_of :: "str_lower \<Rightarrow> json list \<Rightarrow> py_error + json list" where
  "eco_artifacts_of lower [] = Inr []"
| "eco_artifacts_of lower (a # artifacts) =
     (case py_subscript a ''name'' of
        Inl err \<Rightarrow> Inl err
      | Inr (JStr name) \<Rightarrow>
          (case eco_artifacts_of lower artifacts of
             Inl err \<Rightarrow> Inl err
           | Inr rest \<Rightarrow> Inr (if sublist ''eco-ci'' (lower name) then a # rest else rest))
      | Inr _ \<Rightarrow> Inl AttributeError)"

text \<open>One row of the output table: the dict that \<^verbatim>\<open>main\<close> appends to \<^verbatim>\<open>all_rows\<close>.\<close>

record output_row = measurement +
  run_id :: json
  config :: string
  workflow :: json
  branch :: json
  python_version :: string

text \<open>The local variables of one round of \<^verbatim>\<open>for run in runs\<close>.\<close>

record run_locals =
  the_run_id :: json
  the_branch :: json
  the_workflow_name :: json
  the_config :: string

text \<open>
  \<^verbatim>\<open>
  all_rows.append({"run_id": run_id, "config": config, "workflow": workflow_name,
                   "branch": branch, "stage": row["stage"],
                   "energy_joules": row["energy_joules"],
                   "duration_seconds": row["duration_seconds"],
                   "timestamp": row["timestamp"], "python_version": python_version})
  \<close>
\<close>

definition make_row :: "run_locals \<Rightarrow> string \<Rightarrow> measurement \<Rightarrow> output_row" where
  "make_row l version row =
     \<lparr>stage = stage row,
      energy_joules = energy_joules row,
      duration_seconds = duration_seconds row,
      timestamp = timestamp row,
      run_id = the_run_id l,
      config = the_config l,
      workflow = the_workflow_name l,
      branch = the_branch l,
      python_version = version\<rparr>"

text \<open>
  \<^verbatim>\<open>
  for artifact in eco_artifacts:
      print(f"    Downloading: {artifact['name']}")
      raw = download_artifact(artifact)
      if raw is None:
          continue
      rows = parse_eco_ci_json(raw, artifact["name"])
      python_version = infer_python_version(artifact["name"])
      for row in rows:
          all_rows.append({...})
  \<close>
  \<^verbatim>\<open>infer_python_version\<close> calls \<^verbatim>\<open>split\<close> on the name, which only a string has.
\<close>

fun artifacts_loop ::
  "zip_reader \<Rightarrow> env \<Rightarrow> run_locals \<Rightarrow> json list \<Rightarrow> output_row list \<Rightarrow> world \<Rightarrow>
   ((py_error + output_row list) \<times> world) option" where
  "artifacts_loop ZipFile e l [] all_rows w = Some (Inr all_rows, w)"
| "artifacts_loop ZipFile e l (artifact # rest) all_rows w =
     (case py_subscript artifact ''name'' of
        Inl err \<Rightarrow> Some (Inl err, w)
      | Inr name \<Rightarrow>
          (case download_artifact e artifact (emit (Stdout (Msg_downloading name)) w) of
             None \<Rightarrow> None
           | Some (Inl err, w1) \<Rightarrow> Some (Inl err, w1)
           | Some (Inr None, w1) \<Rightarrow> artifacts_loop ZipFile e l rest all_rows w1
           | Some (Inr (Some raw), w1) \<Rightarrow>
               (case parse_eco_ci_json ZipFile raw name of
                  (result, lines) \<Rightarrow>
                    (let w2 = w1\<lparr>trace := trace w1 @ map Stdout lines\<rparr>
                     in case result of
                          Inl err \<Rightarrow> Some (Inl err, w2)
                        | Inr rows \<Rightarrow>
                            (case name of
                               JStr n \<Rightarrow>
                                 artifacts_loop ZipFile e l rest
                                   (all_rows @ map (make_row l (infer_python_version n)) rows) w2
                             | _ \<Rightarrow> Some (Inl AttributeError, w2))))))"

text \<open>
  \<^verbatim>\<open>
  for run in runs:
      run_id = run["id"]
      branch = run.get("head_branch", "unknown")
      workflow_name = run.get("name", "unknown")
      config = infer_config(run)
      print(f"  Run #{run_id} | branch={branch} | config={config} | workflow={workflow_name}")
      artifacts = list_artifacts(run_id)
      eco_artifacts = [a for a in artifacts if "eco-ci" in a["name"].lower()]
      if not eco_artifacts:
          print(f"    No Eco-CI artifacts found for run #{run_id}")
          continue
      for artifact in eco_artifacts: ...
  \<close>
\<close>

fun runs_loop ::
  "str_lower \<Rightarrow> zip_reader \<Rightarrow> env \<Rightarrow> json list \<Rightarrow> output_row list \<Rightarrow> world \<Rightarrow>
   ((py_error + output_row list) \<times> world) option" where
  "runs_loop lower ZipFile e [] all_rows w = Some (Inr all_rows, w)"
| "runs_loop lower ZipFile e (run # rest) all_rows w =
     (case py_subscript run ''id'' of
        Inl err \<Rightarrow> Some (Inl err, w)
      | Inr rid \<Rightarrow>
     (case py_get run ''head_branch'' (JStr ''unknown'') of
        Inl err \<Rightarrow> Some (Inl err, w)
      | Inr br \<Rightarrow>
     (case py_get run ''name'' (JStr ''unknown'') of
        Inl err \<Rightarrow> Some (Inl err, w)
      | Inr workflow_name \<Rightarrow>
     (case infer_config run of
        Inl err \<Rightarrow> Some (Inl err, w)
      | Inr cfg \<Rightarrow>
     (case list_artifacts e rid (emit (Stdout (Msg_run rid br cfg workflow_name)) w) of
        None \<Rightarrow> None
      | Some (Inl err, w1) \<Rightarrow> Some (Inl err, w1)
      | Some (Inr artifacts, w1) \<Rightarrow>
     (case py_iter artifacts of
        Inl err \<Rightarrow> Some (Inl err, w1)
      | Inr arts \<Rightarrow>
     (case eco_artifacts_of lower arts of
        Inl err \<Rightarrow> Some (Inl err, w1)
      | Inr eco_artifacts \<Rightarrow>
          if eco_artifacts = [] then
            runs_loop lower ZipFile e rest all_rows (emit (Stdout (Msg_no_eco_artifacts rid)) w1)
          else
            (case artifacts_loop ZipFile e
                    \<lparr>the_run_id = rid, the_branch = br, the_workflow_name = workflow_name,
                     the_config = cfg\<rparr>
                    eco_artifacts all_rows w1 of
               None \<Rightarrow> None
             | Some (Inl err, w2) \<Rightarrow> Some (Inl err, w2)
             | Some (Inr all_rows', w2) \<Rightarrow> runs_loop lower ZipFile e rest all_rows' w2))))))))"

text \<open>\<^verbatim>\<open>OUTPUT_CSV = Path("results/raw_data.csv")\<close> and the column names.\<close>

definition OUTPUT_CSV :: string where
  "OUTPUT_CSV = ''results/raw_data.csv''"

definition CSV_COLUMNS :: "string list" where
  "CSV_COLUMNS =
     [''run_id'', ''config'', ''workflow'', ''branch'', ''stage'', ''energy_joules'',
      ''duration_seconds'', ''timestamp'', ''python_version'']"

text \<open>
  \<^verbatim>\<open>csv.DictWriter(f, fieldnames=CSV_COLUMNS)\<close> writes of each row the values of the
  columns, in the order of the columns.
\<close>

definition row_cells :: "output_row \<Rightarrow> json list" where
  "row_cells r =
     [run_id r, JStr (config r), workflow r, branch r, stage r, energy_joules r,
      duration_seconds r, timestamp r, JStr (python_version r)]"

text \<open>
  The first part of \<^verbatim>\<open>main\<close>, up to the end of \<^verbatim>\<open>for run in runs\<close>: the rows
  collected.
  \<^verbatim>\<open>
  print(f"Repository: {GITHUB_REPO}")
  print(f"Output: {OUTPUT_CSV}\n")
  runs = list_workflow_runs()
  all_rows = []
  for run in runs: ...
  \<close>
\<close>

definition collect_rows ::
  "str_lower \<Rightarrow> zip_reader \<Rightarrow> env \<Rightarrow> world \<Rightarrow> ((py_error + output_row list) \<times> world) option" where
  "collect_rows lower ZipFile e w =
     (case list_workflow_runs e
             (emit (Stdout (Msg_output OUTPUT_CSV)) (emit (Stdout (Msg_repository (GITHUB_REPO e))) w)) of
        None \<Rightarrow> None
      | Some (Inl err, w1) \<Rightarrow> Some (Inl err, w1)
      | Some (Inr runs, w1) \<Rightarrow> runs_loop lower ZipFile e runs [] w1)"

text \<open>
  The rest of \<^verbatim>\<open>main\<close>:
  \<^verbatim>\<open>
  if not all_rows:
      print("\nNo data collected. Have the workflows been triggered yet?")
      sys.exit(0)
  with open(OUTPUT_CSV, "w", newline="", encoding="utf-8") as f:
      writer = csv.DictWriter(f, fieldnames=CSV_COLUMNS)
      writer.writeheader()
      writer.writerows(all_rows)
  print(f"\n... Wrote {len(all_rows)} rows to {OUTPUT_CSV}")
  \<close>
  The directory of the file is created when the module is loaded, before \<^verbatim>\<open>main\<close> runs.
  A return of \<^verbatim>\<open>main\<close> ends the process with status 0.
\<close>

definition main ::
  "str_lower \<Rightarrow> zip_reader \<Rightarrow> env \<Rightarrow> world \<Rightarrow> ((py_error + unit) \<times> world) option" where
  "main lower ZipFile e w =
     (case collect_rows lower ZipFile e w of
        None \<Rightarrow> None
      | Some (Inl err, w1) \<Rightarrow> Some (Inl err, w1)
      | Some (Inr all_rows, w1) \<Rightarrow>
          if all_rows = [] then Some (Inl (SystemExit 0), emit (Stdout Msg_no_data) w1)
          else
            Some (Inr (),
                  emit (Stdout (Msg_wrote (length all_rows) OUTPUT_CSV))
                    (w1\<lparr>files := (files w1)(OUTPUT_CSV \<mapsto> (CSV_COLUMNS, map row_cells all_rows))\<rparr>)))"

text \<open>The status with which the process ends.\<close>

fun exit_status :: "py_error + unit \<Rightarrow> int" where
  "exit_status (Inr u) = 0"
| "exit_status (Inl (SystemExit n)) = n"
| "exit_status (Inl err) = 1"

subsection \<open>The records extracted during an execution\<close>






subsection \<open>The payload forms of the specification\<close>

text \<open>
  The measurement objects of a parsed member, in the words of the specification: a bare
  sequence of measurement objects, a mapping with a \<^verbatim>\<open>"measurements"\<close> sequence, or a
  single mapping treated as one measurement; a value that is neither sequence nor mapping
  holds none. \<open>None\<close> when the member is not of this form: some measurement is not an
  object, or \<^verbatim>\<open>"measurements"\<close> is not a sequence.
\<close>

fun is_object :: "json \<Rightarrow> bool" where
  "is_object (JDict m) = True"
| "is_object _ = False"

fun payload_objects :: "json \<Rightarrow> json list option" where
  "payload_objects (JList ms) = (if list_all is_object ms then Some ms else None)"
| "payload_objects (JDict d) =
     (case map_of d ''measurements'' of
        None \<Rightarrow> Some [JDict d]
      | Some (JList ms) \<Rightarrow> if list_all is_object ms then Some ms else None
      | Some _ \<Rightarrow> None)"
| "payload_objects _ = Some []"

subsection \<open>Result pages\<close>

text \<open>
  An outcome of \<^verbatim>\<open>requests.get\<close> is a result page with the items \<open>items\<close> under
  \<open>key\<close>: a response that is neither a rate limit (429, 403) nor an error status (400 to
  599), whose JSON is a dict that has the list \<open>items\<close> under \<open>key\<close>, or no such key when
  \<open>items\<close> is empty.
\<close>

definition is_page :: "string \<Rightarrow> json list \<Rightarrow> http_outcome \<Rightarrow> bool" where
  "is_page key items outcome =
     (case outcome of
        Request_failed err \<Rightarrow> False
      | Response resp \<Rightarrow>
          status_code resp \<noteq> 429 \<and> status_code resp \<noteq> 403 \<and>
          \<not> (400 \<le> status_code resp \<and> status_code resp < 600) \<and>
          (case json_body resp of
             Inr (JDict d) \<Rightarrow> dict_get d key (JList []) = JList items
           | _ \<Rightarrow> False))"

subsection \<open>Archives used as examples\<close>

text \<open>
  The archive of the specification's example: one member, a bare list of two objects
  \<^verbatim>\<open>[{"label":"a","total_energy_J":1.0,"duration":2.0,"time":"t1"},
    {"label":"b","cpu_energy_J":3.0}]\<close>.
\<close>

definition example_archive :: zip_archive where
  "example_archive =
     \<lparr>namelist = [''eco-ci-results.json''],
      json_load = (\<lambda>fname. Inr (JList
        [JDict [(''label'', JStr ''a''), (''total_energy_J'', JFloat 1),
                (''duration'', JFloat 2), (''time'', JStr ''t1'')],
         JDict [(''label'', JStr ''b''), (''cpu_energy_J'', JFloat 3)]]))\<rparr>"



definition scalar_archive :: zip_archive where
  "scalar_archive =
     \<lparr>namelist = [''a.json'', ''notes.txt'', ''b.json''],
      json_load = (\<lambda>fname.
        if fname = ''a.json'' then Inr (JInt 5)
        else Inr (JList [JDict [(''label'', JStr ''b'')]]))\<rparr>"

subsection \<open>Executions used as examples\<close>

text \<open>
  Credentials, a successful response, one run on the branch of the specification's example,
  one artifact with and one without a download reference, and worlds with given scripts.
\<close>

definition lower_char :: "char \<Rightarrow> char" where
  "lower_char c =
     (let n = (of_char c :: nat) in if 65 \<le> n \<and> n \<le> 90 then char_of (n + 32) else c)"

text \<open>What \<^verbatim>\<open>s.lower()\<close> gives for a string of ASCII characters.\<close>

definition ascii_lower :: str_lower where
  "ascii_lower s = map lower_char s"

definition example_env :: env where
  "example_env = \<lparr>GITHUB_TOKEN = Some ''ghp_x'', GITHUB_REPO = Some ''o/r''\<rparr>"

definition ok_response :: "json \<Rightarrow> bytes \<Rightarrow> http_outcome" where
  "ok_response data body =
     Response \<lparr>status_code = 200, ratelimit_reset = None, json_body = Inr data, content = body\<rparr>"

definition example_run :: json where
  "example_run =
     JDict [(''id'', JInt 42), (''name'', JStr ''Tests''),
            (''head_branch'', JStr ''experiment/c2-pip-cache-v2''),
            (''path'', JStr ''.github/workflows/tests.yml'')]"

definition example_locals :: run_locals where
  "example_locals =
     \<lparr>the_run_id = JInt 42, the_branch = JStr ''experiment/c2-pip-cache-v2'',
      the_workflow_name = JStr ''Tests'', the_config = ''C2''\<rparr>"

definition example_artifact :: json where
  "example_artifact =
     JDict [(''name'', JStr ''eco-ci-results-tests-py3.11-ubuntu-latest''),
            (''archive_download_url'', JStr ''https://api.github.com/artifacts/7/zip'')]"

definition unlinked_artifact :: "(string \<times> json) list" where
  "unlinked_artifact = [(''name'', JStr ''eco-ci-expired'')]"

definition empty_world :: world where
  "empty_world =
     \<lparr>script = [], clock = (\<lambda>n. \<lparr>as_int = 0, plus_60_as_int = 60\<rparr>), ticks = 0, trace = [],
      files = Map.empty\<rparr>"

text \<open>
  One run with an Eco-CI artifact and another artifact; the download gives an archive.
\<close>

definition example_world :: world where
  "example_world =
     empty_world\<lparr>script :=
       [ok_response (JDict [(''workflow_runs'', JList [example_run])]) [],
        ok_response (JDict [(''artifacts'',
                             JList [example_artifact, JDict [(''name'', JStr ''coverage'')]])]) [],
        ok_response JNull ''PK'']\<rparr>"

text \<open>The repository has no completed run.\<close>

definition no_runs_world :: world where
  "no_runs_world =
     empty_world\<lparr>script := [ok_response (JDict [(''workflow_runs'', JList [])]) []]\<rparr>"

text \<open>Three result pages: a full one of 100 items, a short one, and one more.\<close>

definition page_response :: "json list \<Rightarrow> http_outcome" where
  "page_response items = ok_response (JDict [(''workflow_runs'', JList items)]) []"

definition paged_world :: world where
  "paged_world =
     empty_world\<lparr>script :=
       [page_response (replicate 100 example_run),
        page_response [example_run, example_run],
        page_response [example_run]]\<rparr>"

text \<open>
  A run whose \<^verbatim>\<open>head_branch\<close> is \<^verbatim>\<open>null\<close>, and an execution that meets it after a run
  with an Eco-CI artifact.
\<close>

definition null_branch_run :: json where
  "null_branch_run =
     JDict [(''id'', JInt 43), (''name'', JStr ''Tests''), (''head_branch'', JNull),
            (''path'', JStr ''.github/workflows/tests.yml'')]"

definition null_branch_world :: world where
  "null_branch_world =
     empty_world\<lparr>script :=
       [ok_response (JDict [(''workflow_runs'', JList [example_run, null_branch_run])]) [],
        ok_response (JDict [(''artifacts'', JList [example_artifact])]) [],
        ok_response JNull ''PK'']\<rparr>"

section \<open>Properties of the string helpers\<close>

lemma split_on_not_Nil: "split_on c s \<noteq> []"
  by (induction s) (auto split: list.splits)

lemma join_with_Cons: "ts \<noteq> [] \<Longrightarrow> join_with c (t # ts) = t @ c # join_with c ts"
  by (cases ts) simp_all

lemma join_with_Cons_head: "join_with c ((x # t) # ts) = x # join_with c (t # ts)"
  by (cases ts) simp_all

lemma join_split_on: "join_with c (split_on c s) = s"
proof (induction s)
  case Nil
  show ?case by simp
next
  case (Cons x xs)
  show ?case
  proof (cases "x = c")
    case True
    with Cons split_on_not_Nil [of c xs] show ?thesis
      by (simp add: join_with_Cons)
  next
    case False
    obtain t ts where ts: "split_on c xs = t # ts"
      using split_on_not_Nil [of c xs] by (cases "split_on c xs") auto
    with False Cons show ?thesis
      by (simp add: join_with_Cons_head)
  qed
qed

lemma split_on_no_sep: "t \<in> set (split_on c s) \<Longrightarrow> c \<notin> set t"
  by (induction s arbitrary: t) (auto split: if_splits list.splits)

lemma first_py_part_find:
  "first_py_part parts = (case find (prefix ''py'') parts of None \<Rightarrow> '''' | Some t \<Rightarrow> drop 2 t)"
  by (induction parts) simp_all

text \<open>
  C7. For every artifact name, \<open>infer_python_version\<close> works on the tokens between the
  \<^verbatim>\<open>"-"\<close> delimiters (joining them with \<^verbatim>\<open>"-"\<close> gives the name back, and no token
  holds a \<^verbatim>\<open>"-"\<close>) and returns the first token that starts with \<^verbatim>\<open>"py"\<close>, without
  these two characters, or the empty string when no token starts with \<^verbatim>\<open>"py"\<close>.
\<close>

theorem infer_python_version_first_py_token:
  "join_with CHR ''-'' (split_on CHR ''-'' name) = name \<and>
   (\<forall>t \<in> set (split_on CHR ''-'' name). CHR ''-'' \<notin> set t) \<and>
   infer_python_version name =
     (case find (prefix ''py'') (split_on CHR ''-'' name) of
        None \<Rightarrow> ''''
      | Some t \<Rightarrow> drop 2 t)"
  by (simp add: join_split_on split_on_no_sep infer_python_version_def first_py_part_find)

theorem infer_python_version_example:
  "infer_python_version ''eco-ci-results-tests-py3.11-ubuntu-latest'' = ''3.11''"
proof -
  have "find (prefix ''py'') (split_on CHR ''-'' ''eco-ci-results-tests-py3.11-ubuntu-latest'')
        = Some ''py3.11''"
    by simp
  with infer_python_version_first_py_token [of "''eco-ci-results-tests-py3.11-ubuntu-latest''"]
  show ?thesis by simp
qed

section \<open>Properties of configuration inference\<close>

lemma branch_label_find:
  "branch_label (JStr b) entries =
     Inr (map_option snd (find (\<lambda>entry. b = fst entry \<or> prefix (fst entry) b) entries))"
  by (induction entries) auto

lemma last_split_on_no_sep: "c \<notin> set (last (split_on c s))"
  using split_on_no_sep [of "last (split_on c s)" c s] split_on_not_Nil [of c s]
  by simp

lemma split_on_single: "c \<notin> set s \<Longrightarrow> split_on c s = [s]"
  by (induction s) auto

lemma split_on_sep_two:
  assumes "c \<in> set s" and "split_on c s = t # ts"
  shows "ts \<noteq> []"
proof
  assume "ts = []"
  with assms(2) join_split_on [of c s] have "s = t" by simp
  moreover from assms(2) split_on_no_sep [of t c s] have "c \<notin> set t" by simp
  ultimately show False using assms(1) by simp
qed

lemma last_split_on_suffix: "c \<in> set s \<Longrightarrow> suffix (c # last (split_on c s)) s"
proof (induction s)
  case Nil
  then show ?case by simp
next
  case (Cons x xs)
  obtain t ts where ts: "split_on c xs = t # ts"
    using split_on_not_Nil [of c xs] by (cases "split_on c xs") auto
  show ?case
  proof (cases "c \<in> set xs")
    case True
    from True ts have "ts \<noteq> []" by (rule split_on_sep_two)
    with True Cons.IH ts show ?thesis by (simp add: suffix_Cons)
  next
    case False
    with Cons.prems have "x = c" by simp
    with False show ?thesis by (simp add: split_on_single)
  qed
qed

lemma last_split_on_cases:
  "(c \<notin> set s \<and> last (split_on c s) = s) \<or> suffix (c # last (split_on c s)) s"
  by (cases "c \<in> set s") (simp_all add: last_split_on_suffix split_on_single)

text \<open>
  The two-tier lookup, for the run records whose \<^verbatim>\<open>head_branch\<close> and \<^verbatim>\<open>path\<close> are
  each absent or a string (an absent one counts as the empty string): \<open>infer_config\<close>
  returns the label of the first entry of \<open>BRANCH_CONFIG_MAP\<close> whose key the branch name
  equals or starts with; if there is none, the label that \<open>WORKFLOW_CONFIG_MAP\<close> gives for
  the final component of the path (the part after the last \<^verbatim>\<open>"/"\<close>, or the whole path when
  it has none), and \<^verbatim>\<open>"unknown"\<close> when the table has no such key.
\<close>

theorem infer_config_branch_then_workflow:
  assumes "dict_get run ''head_branch'' (JStr []) = JStr branch_name"
    and "dict_get run ''path'' (JStr []) = JStr path"
  shows "\<exists>file.
     CHR ''/'' \<notin> set file \<and>
     (path = file \<or> suffix (CHR ''/'' # file) path) \<and>
     infer_config (JDict run) =
       Inr (case find (\<lambda>entry. branch_name = fst entry \<or> prefix (fst entry) branch_name) BRANCH_CONFIG_MAP of
              Some entry \<Rightarrow> snd entry
            | None \<Rightarrow>
                (case map_of WORKFLOW_CONFIG_MAP file of
                   Some label \<Rightarrow> label
                 | None \<Rightarrow> ''unknown''))"
proof (intro exI conjI)
  show "CHR ''/'' \<notin> set (last (split_on CHR ''/'' path))"
    by (rule last_split_on_no_sep)
  show "path = last (split_on CHR ''/'' path) \<or> suffix (CHR ''/'' # last (split_on CHR ''/'' path)) path"
    using last_split_on_cases [of "CHR ''/''" path] by auto
  show "infer_config (JDict run) =
       Inr (case find (\<lambda>entry. branch_name = fst entry \<or> prefix (fst entry) branch_name) BRANCH_CONFIG_MAP of
              Some entry \<Rightarrow> snd entry
            | None \<Rightarrow>
                (case map_of WORKFLOW_CONFIG_MAP (last (split_on CHR ''/'' path)) of
                   Some label \<Rightarrow> label
                 | None \<Rightarrow> ''unknown''))"
    using assms
    by (simp add: infer_config_def branch_label_find workflow_label_def
        split: option.splits)
qed

text \<open>
  The example of the specification: branch \<^verbatim>\<open>experiment/c2-pip-cache-v2\<close> with workflow
  file \<^verbatim>\<open>tests.yml\<close> is labelled C2, not C1.
\<close>

theorem infer_config_branch_precedence_example:
  "infer_config (JDict [(''id'', JInt 1),
                        (''head_branch'', JStr ''experiment/c2-pip-cache-v2''),
                        (''path'', JStr ''.github/workflows/tests.yml'')]) = Inr ''C2''"
proof -
  have b: "dict_get [(''id'', JInt 1),
                     (''head_branch'', JStr ''experiment/c2-pip-cache-v2''),
                     (''path'', JStr ''.github/workflows/tests.yml'')] ''head_branch'' (JStr [])
           = JStr ''experiment/c2-pip-cache-v2''"
    by (simp add: dict_get_def)
  have p: "dict_get [(''id'', JInt 1),
                     (''head_branch'', JStr ''experiment/c2-pip-cache-v2''),
                     (''path'', JStr ''.github/workflows/tests.yml'')] ''path'' (JStr [])
           = JStr ''.github/workflows/tests.yml''"
    by (simp add: dict_get_def)
  have f: "find (\<lambda>entry. ''experiment/c2-pip-cache-v2'' = fst entry
                      \<or> prefix (fst entry) ''experiment/c2-pip-cache-v2'') BRANCH_CONFIG_MAP
           = Some (''experiment/c2-pip-cache'', ''C2'')"
    by (simp add: BRANCH_CONFIG_MAP_def)
  from infer_config_branch_then_workflow [OF b p] f show ?thesis
    by auto
qed

section \<open>Properties of measurement extraction\<close>

lemma append_measurements_objects:
  "list_all is_object ms \<Longrightarrow>
   append_measurements ms rows = (rows @ map (\<lambda>m. projr (measurement_row m)) ms, None)"
proof (induction ms arbitrary: rows)
  case Nil
  show ?case by simp
next
  case (Cons m ms)
  from Cons.prems obtain d where "m = JDict d" by (cases m) auto
  with Cons show ?case by simp
qed

lemma json_files_loop_payload:
  assumes "json_load zf fname = Inr v" and "payload_objects v = Some objs"
  shows "json_files_loop zf (fname # rest) rows =
         json_files_loop zf rest (rows @ map (\<lambda>m. projr (measurement_row m)) objs)"
proof (cases v)
  case (JList ms)
  with assms show ?thesis
    by (simp add: append_measurements_objects split: if_splits)
next
  case (JDict d)
  show ?thesis
  proof (cases "map_of d ''measurements''")
    case None
    with assms JDict show ?thesis
      by (auto simp: dict_get_def)
  next
    case (Some ms)
    with assms JDict obtain xs where "ms = JList xs" and "list_all is_object xs" and "objs = xs"
      by (cases ms) (auto split: if_splits)
    with assms JDict Some show ?thesis
      by (simp add: dict_get_def append_measurements_objects)
  qed
qed (use assms in auto)

lemma json_files_loop_well_formed:
  assumes "map (json_load zf) fnames = map Inr payloads"
    and "map payload_objects payloads = map Some objss"
  shows "json_files_loop zf fnames rows =
         (rows @ map (\<lambda>m. projr (measurement_row m)) (concat objss), None)"
  using assms
proof (induction fnames arbitrary: payloads objss rows)
  case Nil
  then show ?case by simp
next
  case (Cons fname fnames)
  from Cons.prems(1) obtain v vs where vs: "payloads = v # vs"
    "json_load zf fname = Inr v" "map (json_load zf) fnames = map Inr vs"
    by (cases payloads) auto
  from Cons.prems(2) vs(1) obtain objs os where os: "objss = objs # os"
    "payload_objects v = Some objs" "map payload_objects vs = map Some os"
    by (cases objss) auto
  from json_files_loop_payload [OF vs(2) os(2)] Cons.IH [OF vs(3) os(3)] os(1)
  show ?case by simp
qed

lemma json_files_loop_append:
  "json_files_loop zf (pre @ rest) rows =
     (case json_files_loop zf pre rows of
        (rows', None) \<Rightarrow> json_files_loop zf rest rows'
      | (rows', Some e) \<Rightarrow> (rows', Some e))"
proof (induction pre arbitrary: rows)
  case Nil
  show ?case by simp
next
  case (Cons fname pre)
  show ?case
    by (simp add: Cons.IH split: sum.splits json.splits prod.splits option.splits)
qed

lemma json_files_loop_skip:
  assumes "json_load zf fname = Inr v" and "\<forall>ms. v \<noteq> JList ms" and "\<forall>d. v \<noteq> JDict d"
  shows "json_files_loop zf (fname # rest) rows = json_files_loop zf rest rows"
  using assms by (cases v) simp_all

lemma measurement_row_fields:
  "projr (measurement_row (JDict m)) =
     \<lparr>stage = (case map_of m ''label'' of None \<Rightarrow> JStr ''unknown'' | Some v \<Rightarrow> v),
      energy_joules =
        (case map_of m ''total_energy_J'' of
           Some v \<Rightarrow> v
         | None \<Rightarrow> (case map_of m ''cpu_energy_J'' of Some v \<Rightarrow> v | None \<Rightarrow> JFloat 0)),
      duration_seconds = (case map_of m ''duration'' of None \<Rightarrow> JFloat 0 | Some v \<Rightarrow> v),
      timestamp = (case map_of m ''time'' of None \<Rightarrow> JStr [] | Some v \<Rightarrow> v)\<rparr>"
  by (simp add: dict_get_def split: option.splits)

lemma payload_objects_all_objects:
  "payload_objects v = Some objs \<Longrightarrow> list_all is_object objs"
  by (cases v) (auto split: if_splits option.splits json.splits)

lemma concat_objects:
  "map payload_objects payloads = map Some objss \<Longrightarrow> list_all is_object (concat objss)"
proof (induction payloads arbitrary: objss)
  case Nil
  then show ?case by simp
next
  case (Cons v vs)
  then obtain objs os where "objss = objs # os" "payload_objects v = Some objs"
    "map payload_objects vs = map Some os"
    by (cases objss) auto
  with Cons.IH [of os] payload_objects_all_objects [of v objs] show ?case by simp
qed

text \<open>
  C1. For every valid zip archive whose JSON members all parse, to values of the three forms
  above, holding the measurement objects \<open>concat objss\<close> in member order: extraction returns
  exactly one record for each of them, in that order. The \<open>i\<close>-th record has as stage the
  \<^verbatim>\<open>"label"\<close> of the \<open>i\<close>-th object or \<^verbatim>\<open>"unknown"\<close>, as energy its
  \<^verbatim>\<open>"total_energy_J"\<close>, else its \<^verbatim>\<open>"cpu_energy_J"\<close>, else 0.0, as duration its
  \<^verbatim>\<open>"duration"\<close> or 0.0, and as timestamp its \<^verbatim>\<open>"time"\<close> or the empty string. The
  only line printed is the warning for an archive without any JSON member.
\<close>

theorem parse_eco_ci_json_records:
  assumes "ZipFile raw_bytes = Inr zf"
    and "map (json_load zf) (json_files_of zf) = map Inr payloads"
    and "map payload_objects payloads = map Some objss"
  shows "\<exists>rows.
     parse_eco_ci_json ZipFile raw_bytes artifact_name =
       (Inr rows, if json_files_of zf = [] then [Warning_no_json artifact_name] else []) \<and>
     length rows = length (concat objss) \<and>
     (\<forall>i < length (concat objss). \<exists>m.
        concat objss ! i = JDict m \<and>
        stage (rows ! i) = (case map_of m ''label'' of None \<Rightarrow> JStr ''unknown'' | Some v \<Rightarrow> v) \<and>
        energy_joules (rows ! i) =
          (case map_of m ''total_energy_J'' of
             Some v \<Rightarrow> v
           | None \<Rightarrow> (case map_of m ''cpu_energy_J'' of Some v \<Rightarrow> v | None \<Rightarrow> JFloat 0)) \<and>
        duration_seconds (rows ! i) =
          (case map_of m ''duration'' of None \<Rightarrow> JFloat 0 | Some v \<Rightarrow> v) \<and>
        timestamp (rows ! i) = (case map_of m ''time'' of None \<Rightarrow> JStr [] | Some v \<Rightarrow> v))"
proof -
  let ?rows = "map (\<lambda>m. projr (measurement_row m)) (concat objss)"
  have objs: "list_all is_object (concat objss)"
    using assms(3) by (rule concat_objects)
  have empty: "concat objss = []" if "json_files_of zf = []"
    using that assms(2,3) by simp
  have loop: "json_files_loop zf (json_files_of zf) [] = (?rows, None)"
    using json_files_loop_well_formed [OF assms(2,3), of "[]"] by simp
  have res: "parse_eco_ci_json ZipFile raw_bytes artifact_name =
      (Inr ?rows, if json_files_of zf = [] then [Warning_no_json artifact_name] else [])"
    using assms(1) loop empty by (simp add: parse_eco_ci_json_def)
  have fields: "\<exists>m. concat objss ! i = JDict m \<and>
        stage (?rows ! i) = (case map_of m ''label'' of None \<Rightarrow> JStr ''unknown'' | Some v \<Rightarrow> v) \<and>
        energy_joules (?rows ! i) =
          (case map_of m ''total_energy_J'' of
             Some v \<Rightarrow> v
           | None \<Rightarrow> (case map_of m ''cpu_energy_J'' of Some v \<Rightarrow> v | None \<Rightarrow> JFloat 0)) \<and>
        duration_seconds (?rows ! i) =
          (case map_of m ''duration'' of None \<Rightarrow> JFloat 0 | Some v \<Rightarrow> v) \<and>
        timestamp (?rows ! i) = (case map_of m ''time'' of None \<Rightarrow> JStr [] | Some v \<Rightarrow> v)"
    if i: "i < length (concat objss)" for i
  proof -
    from objs i have "is_object (concat objss ! i)"
      by (simp add: list_all_length)
    then obtain m where m: "concat objss ! i = JDict m"
      by (cases "concat objss ! i") auto
    from i m have "?rows ! i = projr (measurement_row (JDict m))" by simp
    with m show ?thesis
      by (simp only: measurement_row_fields measurement.simps) blast
  qed
  from res fields show ?thesis
    by (intro exI [of _ ?rows]) simp
qed

text \<open>
  The example of C1: the bare list of two objects gives the two records of the
  specification.
\<close>

theorem parse_eco_ci_json_bare_list_example:
  "parse_eco_ci_json (\<lambda>raw. Inr example_archive) ''PK'' (JStr ''eco-ci-results'') =
     (Inr [\<lparr>stage = JStr ''a'', energy_joules = JFloat 1, duration_seconds = JFloat 2,
            timestamp = JStr ''t1''\<rparr>,
           \<lparr>stage = JStr ''b'', energy_joules = JFloat 3, duration_seconds = JFloat 0,
            timestamp = JStr []\<rparr>], [])"
proof -
  let ?a = "JDict [(''label'', JStr ''a''), (''total_energy_J'', JFloat 1),
                   (''duration'', JFloat 2), (''time'', JStr ''t1'')]"
  let ?b = "JDict [(''label'', JStr ''b''), (''cpu_energy_J'', JFloat 3)]"
  have files: "json_files_of example_archive = [''eco-ci-results.json'']"
    by (simp add: json_files_of_def example_archive_def suffix_to_prefix)
  have loaded: "map (json_load example_archive) (json_files_of example_archive)
                = map Inr [JList [?a, ?b]]"
    by (simp add: files) (simp add: example_archive_def)
  have objects: "map payload_objects [JList [?a, ?b]] = map Some [[?a, ?b]]"
    by simp
  from parse_eco_ci_json_records [where ZipFile = "\<lambda>raw. Inr example_archive" and zf = example_archive
      and raw_bytes = "''PK''" and artifact_name = "JStr ''eco-ci-results''", OF refl loaded objects]
  obtain rows where res: "parse_eco_ci_json (\<lambda>raw. Inr example_archive) ''PK'' (JStr ''eco-ci-results'') = (Inr rows, [])"
    and len: "length rows = 2"
    and fields: "\<forall>i<2. \<exists>m.
        [?a, ?b] ! i = JDict m \<and>
        stage (rows ! i) = (case map_of m ''label'' of None \<Rightarrow> JStr ''unknown'' | Some v \<Rightarrow> v) \<and>
        energy_joules (rows ! i) =
          (case map_of m ''total_energy_J'' of
             Some v \<Rightarrow> v
           | None \<Rightarrow> (case map_of m ''cpu_energy_J'' of Some v \<Rightarrow> v | None \<Rightarrow> JFloat 0)) \<and>
        duration_seconds (rows ! i) =
          (case map_of m ''duration'' of None \<Rightarrow> JFloat 0 | Some v \<Rightarrow> v) \<and>
        timestamp (rows ! i) = (case map_of m ''time'' of None \<Rightarrow> JStr [] | Some v \<Rightarrow> v)"
    by (auto simp: files)
  from fields have "rows ! 0 = \<lparr>stage = JStr ''a'', energy_joules = JFloat 1, duration_seconds = JFloat 2,
            timestamp = JStr ''t1''\<rparr>"
    by (intro measurement.equality) (drule spec [of _ 0], auto)+
  moreover from fields have "rows ! 1 = \<lparr>stage = JStr ''b'', energy_joules = JFloat 3, duration_seconds = JFloat 0,
            timestamp = JStr []\<rparr>"
    by (intro measurement.equality) (drule spec [of _ 1], auto)+
  ultimately have "rows = [\<lparr>stage = JStr ''a'', energy_joules = JFloat 1, duration_seconds = JFloat 2,
            timestamp = JStr ''t1''\<rparr>,
           \<lparr>stage = JStr ''b'', energy_joules = JFloat 3, duration_seconds = JFloat 0,
            timestamp = JStr []\<rparr>]"
    using len by (auto simp: list_eq_iff_nth_eq less_Suc_eq numeral_2_eq_2)
  with res show ?thesis by simp
qed




text \<open>
  C9. A JSON member whose parsed value is neither a list nor a dict adds no record and
  prints nothing: the loop goes on to the remaining members with the rows unchanged, and
  extraction gives what it gives over the other JSON members alone.
\<close>

theorem parse_eco_ci_json_skips_scalar_member:
  assumes "ZipFile raw_bytes = Inr zf"
    and "json_files_of zf = pre @ fname # post"
    and "json_load zf fname = Inr v"
    and "\<forall>ms. v \<noteq> JList ms" and "\<forall>d. v \<noteq> JDict d"
  shows "json_files_loop zf (fname # post) rows = json_files_loop zf post rows \<and>
     parse_eco_ci_json ZipFile raw_bytes artifact_name =
       parse_handlers artifact_name (json_files_loop zf (pre @ post) [])"
proof -
  have skip: "json_files_loop zf (fname # post) rows = json_files_loop zf post rows" for rows
    using assms(3-5) by (rule json_files_loop_skip)
  have "json_files_loop zf (pre @ fname # post) [] = json_files_loop zf (pre @ post) []"
    by (simp only: json_files_loop_append skip)
  with assms(1,2) skip show ?thesis
    by (simp add: parse_eco_ci_json_def)
qed

theorem parse_eco_ci_json_scalar_member_example:
  "parse_eco_ci_json (\<lambda>raw. Inr scalar_archive) ''PK'' (JStr ''eco-ci-results'') =
     (Inr [\<lparr>stage = JStr ''b'', energy_joules = JFloat 0, duration_seconds = JFloat 0,
            timestamp = JStr []\<rparr>], [])"
proof -
  have files: "json_files_of scalar_archive = [] @ ''a.json'' # [''b.json'']"
    by (simp add: json_files_of_def scalar_archive_def suffix_to_prefix)
  have v: "json_load scalar_archive ''a.json'' = Inr (JInt 5)"
    by (simp add: scalar_archive_def)
  have rest: "json_files_loop scalar_archive ([] @ [''b.json'']) [] =
      ([\<lparr>stage = JStr ''b'', energy_joules = JFloat 0, duration_seconds = JFloat 0,
            timestamp = JStr []\<rparr>], None)"
    by (simp add: scalar_archive_def dict_get_def)
  from parse_eco_ci_json_skips_scalar_member [where ZipFile = "\<lambda>raw. Inr scalar_archive"
      and raw_bytes = "''PK''" and artifact_name = "JStr ''eco-ci-results''", OF refl files v]
    rest
  show ?thesis by simp
qed

section \<open>Properties of the API helpers\<close>

lemma dict_set_twice: "dict_set k v (dict_set k v' d) = dict_set k v d"
  by (simp add: dict_set_def)

lemma api_get_page:
  assumes "is_set (GITHUB_TOKEN e)" and "is_set (GITHUB_REPO e)"
    and "script w = outcome # rest" and "is_page key items outcome"
  shows "\<exists>data. api_get e u params w =
           Some (Inr data,
                 w\<lparr>script := rest,
                    trace := trace w @
                      [Http_get \<lparr>req_url = u, req_headers = auth_headers e,
                                  req_params = params, req_timeout = 30\<rparr>]\<rparr>) \<and>
         py_get data key (JList []) = Inr (JList items)"
  using assms
  by (subst api_get.simps)
     (auto simp: is_page_def get_headers_def emit_def
           split: http_outcome.splits sum.splits json.splits)

lemma paginate_loop_pages:
  assumes "is_set (GITHUB_TOKEN e)" and "is_set (GITHUB_REPO e)"
    and "script w = outcomes @ later"
    and "list_all2 (is_page key) pages outcomes"
    and "k < length pages"
    and "length (pages ! k) < 100"
    and "\<forall>i<k. \<not> length (pages ! i) < 100"
  shows "paginate_loop e u key params page results w =
     Some (Inr (results @ concat (take (Suc k) pages)),
           w\<lparr>script := drop (Suc k) (script w),
              trace := trace w @
                map (\<lambda>i. Http_get \<lparr>req_url = u, req_headers = auth_headers e,
                                     req_params = Some (dict_set ''page'' (JInt (page + int i)) params),
                                     req_timeout = 30\<rparr>)
                    [0..<Suc k]\<rparr>)"
  using assms(3-7)
proof (induction k arbitrary: pages outcomes w page results params)
  case 0
  from "0.prems"(1-3) obtain p ps outcome rest where
    pages: "pages = p # ps" and sc: "script w = outcome # rest" and pg: "is_page key p outcome"
    by (cases pages; cases outcomes) auto
  from api_get_page [OF assms(1,2) sc pg, of u "Some (dict_set ''page'' (JInt page) params)"]
    "0.prems"(4) pages sc
  show ?case
    by (subst paginate_loop.simps) auto
next
  case (Suc k)
  from Suc.prems(1-3) obtain p ps outcome os where
    pages: "pages = p # ps" and out: "outcomes = outcome # os"
    and pg: "is_page key p outcome" and rest: "list_all2 (is_page key) ps os"
    by (cases pages; cases outcomes) auto
  from Suc.prems(1) out have sc: "script w = outcome # (os @ later)" by simp
  let ?w1 = "w\<lparr>script := os @ later,
               trace := trace w @
                 [Http_get \<lparr>req_url = u, req_headers = auth_headers e,
                             req_params = Some (dict_set ''page'' (JInt page) params),
                             req_timeout = 30\<rparr>]\<rparr>"
  from Suc.prems(5) pages have long: "\<not> length p < 100" by auto
  have sc1: "script ?w1 = os @ later" by simp
  have ih: "paginate_loop e u key (dict_set ''page'' (JInt page) params) (page + 1) (results @ p) ?w1 =
     Some (Inr ((results @ p) @ concat (take (Suc k) ps)),
           ?w1\<lparr>script := drop (Suc k) (script ?w1),
              trace := trace ?w1 @
                map (\<lambda>i. Http_get \<lparr>req_url = u, req_headers = auth_headers e,
                                     req_params = Some (dict_set ''page'' (JInt (page + 1 + int i))
                                                        (dict_set ''page'' (JInt page) params)),
                                     req_timeout = 30\<rparr>)
                    [0..<Suc k]\<rparr>)"
    using sc1 rest Suc.prems(3,4,5) pages
    by (intro Suc.IH [where outcomes = os]) auto
  from api_get_page [OF assms(1,2) sc pg, of u "Some (dict_set ''page'' (JInt page) params)"]
  obtain data where call: "api_get e u (Some (dict_set ''page'' (JInt page) params)) w = Some (Inr data, ?w1)"
    and items: "py_get data key (JList []) = Inr (JList p)"
    by blast
  have "paginate_loop e u key params page results w =
        paginate_loop e u key (dict_set ''page'' (JInt page) params) (page + 1) (results @ p) ?w1"
    using call items long by (subst paginate_loop.simps) simp
  with ih pages sc show ?case
    by (simp add: dict_set_twice map_upt_Suc [where n = "Suc k"] add.assoc del: upt_Suc)
qed

text \<open>
  C4. With the credentials set: when the outcomes of the requests to come begin with the
  result pages \<open>pages\<close>, of which page \<open>k\<close> (counted from 0) is the first with fewer than
  100 items, \<open>paginate\<close> returns the items of the pages \<open>0\<close> to \<open>k\<close>, in this order. It
  has sent exactly the \<open>k + 1\<close> requests for the pages \<open>1\<close> to \<open>k + 1\<close>, and the outcomes
  after page \<open>k\<close> are still in the script: no page after the short one is requested.
\<close>

theorem paginate_stops_at_short_page:
  assumes "is_set (GITHUB_TOKEN e)" and "is_set (GITHUB_REPO e)"
    and "script w = outcomes @ later"
    and "list_all2 (is_page key) pages outcomes"
    and "k < length pages"
    and "length (pages ! k) < 100"
    and "\<forall>i<k. \<not> length (pages ! i) < 100"
  shows "paginate e u key params w =
     Some (Inr (concat (take (Suc k) pages)),
           w\<lparr>script := drop (Suc k) (script w),
              trace := trace w @
                map (\<lambda>i. Http_get
                       \<lparr>req_url = u, req_headers = auth_headers e,
                        req_params =
                          Some (dict_set ''page'' (JInt (1 + int i))
                                 (dict_set ''per_page'' (JInt 100)
                                    (case params of None \<Rightarrow> [] | Some d \<Rightarrow> d))),
                        req_timeout = 30\<rparr>)
                    [0..<Suc k]\<rparr>)"
  using paginate_loop_pages [OF assms, of u _ 1 "[]"]
  by (simp add: paginate_def)

theorem paginate_stops_at_short_page_example:
  "paginate example_env (Runs_url ''o/r'') ''workflow_runs'' (Some [(''status'', JStr ''completed'')])
     paged_world =
   Some (Inr (replicate 100 example_run @ [example_run, example_run]),
         paged_world
           \<lparr>script := [page_response [example_run]],
            trace :=
              [Http_get \<lparr>req_url = Runs_url ''o/r'', req_headers = auth_headers example_env,
                          req_params = Some [(''status'', JStr ''completed''),
                                             (''per_page'', JInt 100), (''page'', JInt 1)],
                          req_timeout = 30\<rparr>,
               Http_get \<lparr>req_url = Runs_url ''o/r'', req_headers = auth_headers example_env,
                          req_params = Some [(''status'', JStr ''completed''),
                                             (''per_page'', JInt 100), (''page'', JInt 2)],
                          req_timeout = 30\<rparr>]\<rparr>)"
proof -
  let ?pages = "[replicate 100 example_run, [example_run, example_run], [example_run]]"
  have creds: "is_set (GITHUB_TOKEN example_env)" "is_set (GITHUB_REPO example_env)"
    by (simp_all add: example_env_def)
  have sc: "script paged_world = script paged_world @ []" by simp
  have pages: "list_all2 (is_page ''workflow_runs'') ?pages (script paged_world)"
    by (simp add: paged_world_def empty_world_def page_response_def ok_response_def
        is_page_def dict_get_def)
  have k: "(1::nat) < length ?pages" by simp
  have short: "length (?pages ! 1) < 100" by simp
  have full: "\<forall>i<(1::nat). \<not> length (?pages ! i) < 100" by simp
  from paginate_stops_at_short_page [OF creds sc pages k short full,
      of "Runs_url ''o/r''" "Some [(''status'', JStr ''completed'')]"]
  show ?thesis
    by (simp add: paged_world_def empty_world_def dict_set_def)
qed

section \<open>Properties of the main program\<close>

text \<open>
  C6. When \<^verbatim>\<open>GITHUB_TOKEN\<close> or \<^verbatim>\<open>GITHUB_REPO\<close> is absent, \<open>main\<close> ends with
  \<^verbatim>\<open>sys.exit(1)\<close>. It has printed its two opening lines and the error message on
  \<^verbatim>\<open>stderr\<close>, and nothing else has changed: no request was sent, the script of the
  remote service is untouched.
\<close>

theorem main_missing_credentials:
  assumes "GITHUB_TOKEN e = None \<or> GITHUB_REPO e = None"
  shows "main lower ZipFile e w =
     Some (Inl (SystemExit 1),
           w\<lparr>trace := trace w @
                [Stdout (Msg_repository (GITHUB_REPO e)),
                 Stdout (Msg_output OUTPUT_CSV),
                 Stderr (if is_set (GITHUB_TOKEN e) then Error_no_repo else Error_no_token)]\<rparr>)"
  using assms
  by (auto simp: main_def collect_rows_def list_workflow_runs_def paginate_def
      paginate_loop.simps [of e] api_get.simps [of e] get_headers_def emit_def)

theorem main_missing_token_example:
  "main ascii_lower (\<lambda>raw. Inl BadZipFile) \<lparr>GITHUB_TOKEN = None, GITHUB_REPO = Some ''o/r''\<rparr>
     (empty_world\<lparr>script := [ok_response (JDict []) []]\<rparr>) =
   Some (Inl (SystemExit 1),
         empty_world\<lparr>script := [ok_response (JDict []) []],
                      trace := [Stdout (Msg_repository (Some ''o/r'')),
                                Stdout (Msg_output OUTPUT_CSV),
                                Stderr Error_no_token]\<rparr>)"
  using main_missing_credentials [of "\<lparr>GITHUB_TOKEN = None, GITHUB_REPO = Some ''o/r''\<rparr>"
      ascii_lower "\<lambda>raw. Inl BadZipFile" "empty_world\<lparr>script := [ok_response (JDict []) []]\<rparr>"]
  by (simp add: empty_world_def)

text \<open>
  C10. For an artifact without download reference (the key is absent, or its value is
  \<^verbatim>\<open>null\<close> or empty), \<open>download_artifact\<close> returns \<^verbatim>\<open>None\<close> and leaves the world
  as it is: no request, no line printed. The loop of \<open>main\<close> prints its
  \<^verbatim>\<open>Downloading\<close> line and goes on to the next artifact with the rows unchanged.
\<close>

theorem download_artifact_without_url:
  assumes "\<not> truthy (dict_get artifact ''archive_download_url'' JNull)"
    and "map_of artifact ''name'' = Some name"
  shows "download_artifact e (JDict artifact) w = Some (Inr None, w) \<and>
     artifacts_loop ZipFile e l (JDict artifact # rest) all_rows w =
       artifacts_loop ZipFile e l rest all_rows (emit (Stdout (Msg_downloading name)) w)"
  using assms by (simp add: download_artifact_def)

theorem download_artifact_without_url_example:
  "download_artifact example_env (JDict unlinked_artifact) empty_world = Some (Inr None, empty_world) \<and>
   artifacts_loop (\<lambda>raw. Inl BadZipFile) example_env example_locals [JDict unlinked_artifact] [] empty_world =
     Some (Inr [], empty_world\<lparr>trace := [Stdout (Msg_downloading (JStr ''eco-ci-expired''))]\<rparr>)"
proof -
  have u: "\<not> truthy (dict_get unlinked_artifact ''archive_download_url'' JNull)"
    by (simp add: unlinked_artifact_def dict_get_def)
  have n: "map_of unlinked_artifact ''name'' = Some (JStr ''eco-ci-expired'')"
    by (simp add: unlinked_artifact_def)
  from download_artifact_without_url [OF u n, of example_env empty_world "\<lambda>raw. Inl BadZipFile" example_locals "[]" "[]"]
  show ?thesis by (simp add: emit_def empty_world_def)
qed

subsection \<open>Collecting the rows writes no file\<close>

lemma emit_files [simp]: "files (emit ev w) = files w"
  by (simp add: emit_def)

lemma get_headers_files: "get_headers e w = (r, w') \<Longrightarrow> files w' = files w"
  by (auto simp: get_headers_def split: if_splits)

lemma api_get_files: "api_get e u params w = Some (r, w') \<Longrightarrow> files w' = files w"
proof (induction "length (script w)" arbitrary: w rule: less_induct)
  case less
  from less.prems show ?case
    by (subst (asm) api_get.simps)
       (auto simp: get_headers_def Let_def emit_def time_time_def
             split: if_splits list.splits http_outcome.splits sum.splits prod.splits
                    option.splits
             dest!: less.hyps [rotated])
qed

lemma paginate_loop_files:
  "paginate_loop e u key params page results w = Some (r, w') \<Longrightarrow> files w' = files w"
proof (induction "length (script w)" arbitrary: w params page results rule: less_induct)
  case less
  let ?call = "api_get e u (Some (dict_set ''page'' (JInt page) params)) w"
  from less.prems obtain r1 w1 where call: "?call = Some (r1, w1)"
    by (subst (asm) paginate_loop.simps) (auto split: option.splits)
  then have f1: "files w1 = files w" by (rule api_get_files)
  from less.prems call
  have "w' = w1 \<or> (\<exists>data xs. r1 = Inr data \<and>
          paginate_loop e u key (dict_set ''page'' (JInt page) params) (page + 1) (results @ xs) w1
            = Some (r, w'))"
    by (subst (asm) paginate_loop.simps) (auto split: sum.splits if_splits)
  then show ?case
  proof
    assume "w' = w1"
    with f1 show ?thesis by simp
  next
    assume "\<exists>data xs. r1 = Inr data \<and>
          paginate_loop e u key (dict_set ''page'' (JInt page) params) (page + 1) (results @ xs) w1
            = Some (r, w')"
    then obtain data xs where r1: "r1 = Inr data"
      and rec: "paginate_loop e u key (dict_set ''page'' (JInt page) params) (page + 1)
                  (results @ xs) w1 = Some (r, w')"
      by blast
    from call r1 have "length (script w1) < length (script w)"
      by (auto dest: api_get_script_shorter)
    from less.hyps [OF this rec] f1 show ?thesis by simp
  qed
qed

lemma list_workflow_runs_files: "list_workflow_runs e w = Some (r, w') \<Longrightarrow> files w' = files w"
  by (auto simp: list_workflow_runs_def paginate_def
      split: option.splits sum.splits prod.splits dest: paginate_loop_files)

lemma list_artifacts_files: "list_artifacts e rid w = Some (r, w') \<Longrightarrow> files w' = files w"
  by (auto simp: list_artifacts_def split: option.splits sum.splits prod.splits
      dest: api_get_files)

lemma download_artifact_files: "download_artifact e a w = Some (r, w') \<Longrightarrow> files w' = files w"
  by (auto simp: download_artifact_def get_headers_def Let_def
      split: option.splits sum.splits prod.splits if_splits list.splits http_outcome.splits)

lemma artifacts_loop_files:
  "artifacts_loop ZipFile e l arts all_rows w = Some (r, w') \<Longrightarrow> files w' = files w"
proof (induction arts arbitrary: all_rows w)
  case Nil
  then show ?case by simp
next
  case (Cons a arts)
  from Cons.prems show ?case
    by (auto simp: Let_def
        split: option.splits sum.splits prod.splits json.splits
        dest!: Cons.IH download_artifact_files)
qed

lemma runs_loop_files:
  "runs_loop lower ZipFile e runs all_rows w = Some (r, w') \<Longrightarrow> files w' = files w"
proof (induction runs arbitrary: all_rows w)
  case Nil
  then show ?case by simp
next
  case (Cons run runs)
  from Cons.prems show ?case
    by (auto split: option.splits sum.splits prod.splits if_splits
        dest!: Cons.IH list_artifacts_files artifacts_loop_files)
qed

lemma collect_rows_files: "collect_rows lower ZipFile e w = Some (r, w') \<Longrightarrow> files w' = files w"
  by (auto simp: collect_rows_def split: option.splits sum.splits prod.splits
      dest!: list_workflow_runs_files runs_loop_files)

text \<open>
  C5. When the collection ends with no row, \<open>main\<close> prints the diagnostic line and ends
  with \<^verbatim>\<open>sys.exit(0)\<close>, and the files are those of the start: nothing is written.
  Otherwise \<open>main\<close> returns, and the only file changed is \<^verbatim>\<open>results/raw_data.csv\<close>,
  which holds the header and one line of cells for every collected row, in order.
\<close>

theorem main_writes_collected_rows:
  assumes "collect_rows lower ZipFile e w = Some (Inr all_rows, w1)"
  shows "(all_rows = [] \<longrightarrow>
            (\<exists>w2. main lower ZipFile e w = Some (Inl (SystemExit 0), w2) \<and>
                  exit_status (Inl (SystemExit 0)) = 0 \<and>
                  trace w2 = trace w1 @ [Stdout Msg_no_data] \<and>
                  files w2 = files w)) \<and>
         (all_rows \<noteq> [] \<longrightarrow>
            (\<exists>w2. main lower ZipFile e w = Some (Inr (), w2) \<and>
                  exit_status (Inr ()) = 0 \<and>
                  trace w2 = trace w1 @ [Stdout (Msg_wrote (length all_rows) OUTPUT_CSV)] \<and>
                  files w2 = (files w)(OUTPUT_CSV \<mapsto> (CSV_COLUMNS, map row_cells all_rows))))"
  using assms collect_rows_files [OF assms]
  by (simp add: main_def emit_def)

text \<open>Evaluating the example executions.\<close>

lemmas example_eval =
  collect_rows_def list_workflow_runs_def paginate_def paginate_loop.simps api_get.simps
  get_headers_def auth_headers_def emit_def list_artifacts_def download_artifact_def
  dict_set_def dict_get_def infer_config_def BRANCH_CONFIG_MAP_def
  parse_eco_ci_json_def json_files_of_def suffix_to_prefix ascii_lower_def lower_char_def
  sublist_code infer_python_version_def make_row_def
  example_world_def no_runs_world_def empty_world_def example_env_def ok_response_def
  example_run_def example_artifact_def example_archive_def

theorem main_writes_collected_rows_example:
  "(\<exists>w2. main ascii_lower (\<lambda>raw. Inr example_archive) example_env no_runs_world =
           Some (Inl (SystemExit 0), w2) \<and>
         trace w2 =
           [Stdout (Msg_repository (Some ''o/r'')),
            Stdout (Msg_output OUTPUT_CSV),
            Http_get \<lparr>req_url = Runs_url ''o/r'', req_headers = auth_headers example_env,
                       req_params = Some [(''status'', JStr ''completed''),
                                          (''per_page'', JInt 100), (''page'', JInt 1)],
                       req_timeout = 30\<rparr>,
            Stdout (Msg_found 0),
            Stdout Msg_no_data] \<and>
         files w2 = Map.empty) \<and>
   (\<exists>w2. main ascii_lower (\<lambda>raw. Inr example_archive) example_env example_world = Some (Inr (), w2) \<and>
         files w2 =
           Map.empty(OUTPUT_CSV \<mapsto>
             (CSV_COLUMNS,
              [[JInt 42, JStr ''C2'', JStr ''Tests'', JStr ''experiment/c2-pip-cache-v2'',
                JStr ''a'', JFloat 1, JFloat 2, JStr ''t1'', JStr ''3.11''],
               [JInt 42, JStr ''C2'', JStr ''Tests'', JStr ''experiment/c2-pip-cache-v2'',
                JStr ''b'', JFloat 3, JFloat 0, JStr [], JStr ''3.11'']])))"
proof -
  let ?Z = "\<lambda>raw::bytes. Inr example_archive :: py_error + zip_archive"
  let ?w1 = "no_runs_world
             \<lparr>script := [],
              trace :=
                [Stdout (Msg_repository (Some ''o/r'')),
                 Stdout (Msg_output OUTPUT_CSV),
                 Http_get \<lparr>req_url = Runs_url ''o/r'', req_headers = auth_headers example_env,
                            req_params = Some [(''status'', JStr ''completed''),
                                               (''per_page'', JInt 100), (''page'', JInt 1)],
                            req_timeout = 30\<rparr>,
                 Stdout (Msg_found 0)]\<rparr>"
  have none: "collect_rows ascii_lower ?Z example_env no_runs_world = Some (Inr [], ?w1)"
    by (simp add: example_eval)
  have start0: "files no_runs_world = Map.empty"
    by (simp add: no_runs_world_def empty_world_def)
  from main_writes_collected_rows [OF none] start0
  have a: "\<exists>w2. main ascii_lower ?Z example_env no_runs_world = Some (Inl (SystemExit 0), w2) \<and>
         trace w2 =
           [Stdout (Msg_repository (Some ''o/r'')),
            Stdout (Msg_output OUTPUT_CSV),
            Http_get \<lparr>req_url = Runs_url ''o/r'', req_headers = auth_headers example_env,
                       req_params = Some [(''status'', JStr ''completed''),
                                          (''per_page'', JInt 100), (''page'', JInt 1)],
                       req_timeout = 30\<rparr>,
            Stdout (Msg_found 0),
            Stdout Msg_no_data] \<and>
         files w2 = Map.empty"
    by simp
  let ?rows = "[make_row example_locals ''3.11''
                  \<lparr>stage = JStr ''a'', energy_joules = JFloat 1, duration_seconds = JFloat 2,
                   timestamp = JStr ''t1''\<rparr>,
                make_row example_locals ''3.11''
                  \<lparr>stage = JStr ''b'', energy_joules = JFloat 3, duration_seconds = JFloat 0,
                   timestamp = JStr []\<rparr>]"
  obtain w1 where some: "collect_rows ascii_lower ?Z example_env example_world = Some (Inr ?rows, w1)"
    by (simp add: example_eval example_locals_def)
  have start: "files example_world = Map.empty"
    by (simp add: example_world_def empty_world_def)
  from main_writes_collected_rows [OF some] start
  have b: "\<exists>w2. main ascii_lower ?Z example_env example_world = Some (Inr (), w2) \<and>
         files w2 =
           Map.empty(OUTPUT_CSV \<mapsto>
             (CSV_COLUMNS,
              [[JInt 42, JStr ''C2'', JStr ''Tests'', JStr ''experiment/c2-pip-cache-v2'',
                JStr ''a'', JFloat 1, JFloat 2, JStr ''t1'', JStr ''3.11''],
               [JInt 42, JStr ''C2'', JStr ''Tests'', JStr ''experiment/c2-pip-cache-v2'',
                JStr ''b'', JFloat 3, JFloat 0, JStr [], JStr ''3.11'']]))"
    by (auto simp: row_cells_def make_row_def example_locals_def)
  from a b show ?thesis by (rule conjI)
qed

subsection \<open>Every extracted record becomes one row\<close>








subsection \<open>A run without a branch\<close>

text \<open>
  C3. The specification has \<open>infer_config\<close> return, for every run record, the label of the
  first branch entry that the branch name equals or starts with, and otherwise fall back to
  the workflow table. For the run record
  \<^verbatim>\<open>{"id": 43, "name": "Tests", "head_branch": null, "path": ".github/workflows/tests.yml"}\<close>
  no branch entry matches, and the fallback gives the label C1 of \<^verbatim>\<open>tests.yml\<close>. The code
  does not get there: \<^verbatim>\<open>run.get("head_branch", "")\<close> returns \<^verbatim>\<open>None\<close>, and
  \<^verbatim>\<open>branch.startswith(prefix)\<close> raises \<^verbatim>\<open>AttributeError\<close>. Nothing catches it: in an
  execution that meets this run after a run whose artifact gave two records, \<open>main\<close> ends
  with the exception, after all three requests, and no file is written.
\<close>

theorem infer_config_null_branch_raises:
  "infer_config null_branch_run = Inl AttributeError \<and>
   (\<exists>w'. main ascii_lower (\<lambda>raw. Inr example_archive) example_env null_branch_world =
            Some (Inl AttributeError, w') \<and>
          script w' = [] \<and>
          files w' = Map.empty)"
  by (simp add: example_eval main_def null_branch_world_def null_branch_run_def)

end
